theory Spec2Isabelle
  imports Main "HOL-Library.Sublist" "HOL-Library.Word"
begin

section \<open>JavaScript values and asynchronous calls\<close>

text \<open>
  A value thrown by a JavaScript \<^verbatim>\<open>throw\<close> or carried by a rejected promise.
  \<open>instanceof_Error\<close> is the outcome of \<^verbatim>\<open>error instanceof Error\<close>; \<open>code\<close> is the
  \<^verbatim>\<open>code\<close> property (\<open>None\<close> when the value has none), \<open>message\<close> the
  \<^verbatim>\<open>message\<close> property and \<open>as_string\<close> what \<^verbatim>\<open>String(error)\<close> gives.
\<close>

record js_thrown =
  instanceof_Error :: bool
  code :: "string option"
  message :: string
  as_string :: string

text \<open>
  \<^verbatim>\<open>new Error(msg)\<close>: an Error instance without a code, which \<^verbatim>\<open>String\<close> renders as
  \<open>Error: msg\<close> (as \<open>Error\<close> when the message is empty).
\<close>

definition new_Error :: "string \<Rightarrow> js_thrown" where
  "new_Error msg =
     \<lparr>instanceof_Error = True, code = None, message = msg,
      as_string = (if msg = [] then ''Error'' else ''Error: '' @ msg)\<rparr>"

text \<open>
  An awaited call of a collaborator: run on the outside world \<open>'w\<close>, it either
  rejects (\<open>Inl\<close>) or resolves (\<open>Inr\<close>) and leaves the world changed.
\<close>

type_synonym ('w, 'a) js = "'w \<Rightarrow> (js_thrown + 'a) \<times> 'w"

definition resolve :: "'a \<Rightarrow> ('w, 'a) js" where
  "resolve x = (\<lambda>w. (Inr x, w))"

definition reject :: "js_thrown \<Rightarrow> ('w, 'a) js" where
  "reject e = (\<lambda>w. (Inl e, w))"

text \<open>\<^verbatim>\<open>const x = await m; k(x)\<close>: a rejection of \<open>m\<close> skips the continuation.\<close>

definition await :: "('w, 'a) js \<Rightarrow> ('a \<Rightarrow> ('w, 'b) js) \<Rightarrow> ('w, 'b) js" where
  "await m k = (\<lambda>w. case m w of (Inl e, w') \<Rightarrow> (Inl e, w') | (Inr x, w') \<Rightarrow> k x w')"

text \<open>\<^verbatim>\<open>try { m } catch (error) { h(error) }\<close>.\<close>

definition try_catch :: "('w, 'a) js \<Rightarrow> (js_thrown \<Rightarrow> ('w, 'a) js) \<Rightarrow> ('w, 'a) js" where
  "try_catch m h = (\<lambda>w. case m w of (Inl e, w') \<Rightarrow> h e w' | (Inr x, w') \<Rightarrow> (Inr x, w'))"

text \<open>
  Strings are \<^typ>\<open>string\<close>; characters outside ASCII in the source's literals are
  written as their UTF-8 bytes. A template literal renders \<^verbatim>\<open>undefined\<close> as the
  text \<open>undefined\<close>.
\<close>

definition template :: "string option \<Rightarrow> string" where
  "template v = (case v of None \<Rightarrow> ''undefined'' | Some s \<Rightarrow> s)"

definition squote :: string where
  "squote = [CHR 0x27]"

definition newline :: string where
  "newline = [CHR 0x0A]"

text \<open>\<^verbatim>\<open>!v\<close> for a string or \<^verbatim>\<open>undefined\<close>: both \<^verbatim>\<open>undefined\<close> and the empty string are falsy.\<close>

definition falsy :: "string option \<Rightarrow> bool" where
  "falsy v = (case v of None \<Rightarrow> True | Some s \<Rightarrow> s = [])"

text \<open>\<^verbatim>\<open>arr.includes(v)\<close> on a string array: \<^verbatim>\<open>undefined\<close> is never an element.\<close>

definition array_includes :: "string list \<Rightarrow> string option \<Rightarrow> bool" where
  "array_includes arr v = (case v of None \<Rightarrow> False | Some s \<Rightarrow> s \<in> set arr)"

text \<open>\<^verbatim>\<open>s.includes(needle)\<close> and \<^verbatim>\<open>s.startsWith(p)\<close> on strings.\<close>

definition str_includes :: "string \<Rightarrow> string \<Rightarrow> bool" where
  "str_includes s needle = sublist needle s"

definition startsWith :: "string \<Rightarrow> string \<Rightarrow> bool" where
  "startsWith s p = prefix p s"

text \<open>\<^verbatim>\<open>error instanceof Error ? error.message : 'Unknown error'\<close>.\<close>

definition message_or_unknown :: "js_thrown \<Rightarrow> string" where
  "message_or_unknown error = (if instanceof_Error error then message error else ''Unknown error'')"

section \<open>GitCheckoutCommand\<close>

text \<open>
  The collaborators of \<^verbatim>\<open>GitCheckoutCommand\<close>: \<^verbatim>\<open>fs.stat\<close>, the isomorphic-git calls
  it makes (each with \<^verbatim>\<open>dir\<close> first), and the two result constructors of
  \<^verbatim>\<open>ShellCommand\<close>, whose module is not among the sources: they are parameters, and
  \<open>'r\<close> is the type of a \<^verbatim>\<open>ShellCommandResult\<close>. A branch name that is
  \<^verbatim>\<open>undefined\<close> at run time (\<^verbatim>\<open>target!\<close>) is \<open>None\<close>.
\<close>

type_synonym status_row = "string \<times> nat \<times> nat \<times> nat"

record ('w, 'r) checkout_env =
  fs_stat :: "string \<Rightarrow> ('w, unit) js"
  git_listBranches :: "string \<Rightarrow> ('w, string list) js"
  git_currentBranch :: "string \<Rightarrow> ('w, string option) js"
  git_statusMatrix :: "string \<Rightarrow> ('w, status_row list) js"
  git_checkout :: "string \<Rightarrow> string option \<Rightarrow> string option list option \<Rightarrow> ('w, unit) js"
  git_resolveRef :: "string \<Rightarrow> string \<Rightarrow> ('w, string) js"
  git_branch :: "string \<Rightarrow> string option \<Rightarrow> string \<Rightarrow> ('w, unit) js"
  createSuccessResult :: "string \<Rightarrow> 'r"
  createErrorResult :: "string \<Rightarrow> 'r"

datatype action = Switch | Create | Restore

text \<open>
  \<^verbatim>\<open>parseArgs\<close>: the loop over \<^verbatim>\<open>args\<close> from index \<open>i\<close> on, carrying \<^verbatim>\<open>action\<close>,
  \<^verbatim>\<open>target\<close> and \<^verbatim>\<open>options.createBranch\<close>. \<^verbatim>\<open>-b\<close> takes the next argument as the
  target when there is one; \<^verbatim>\<open>--\<close> ends the loop; any other argument that does not
  start with \<^verbatim>\<open>-\<close> becomes the target while the target is falsy.
\<close>

fun parseArgs_loop ::
  "string list \<Rightarrow> action \<Rightarrow> string option \<Rightarrow> bool \<Rightarrow> action \<times> string option \<times> bool" where
  "parseArgs_loop [] act target createBranch = (act, target, createBranch)"
| "parseArgs_loop (arg # rest) act target createBranch =
     (if arg = ''-b'' then
        (case rest of
           [] \<Rightarrow> parseArgs_loop [] Create target True
         | next_arg # rest' \<Rightarrow> parseArgs_loop rest' Create (Some next_arg) True)
      else if arg = ''--'' then
        (case rest of
           [] \<Rightarrow> (act, target, createBranch)
         | next_arg # _ \<Rightarrow> (Restore, Some next_arg, createBranch))
      else if \<not> startsWith arg ''-'' then
        (if falsy target then parseArgs_loop rest act (Some arg) createBranch
         else parseArgs_loop rest act target createBranch)
      else parseArgs_loop rest act target createBranch)"

definition parseArgs :: "string list \<Rightarrow> action \<times> string option \<times> bool" where
  "parseArgs args = parseArgs_loop args Switch None False"

text \<open>\<^verbatim>\<open>statusMatrix.some(([, head, workdir, stage]) => head !== workdir || head !== stage)\<close>.\<close>

definition hasChanges :: "status_row list \<Rightarrow> bool" where
  "hasChanges statusMatrix =
     list_ex (\<lambda>(_, headStatus, workdirStatus, stageStatus).
                headStatus \<noteq> workdirStatus \<or> headStatus \<noteq> stageStatus) statusMatrix"

text \<open>
  \<^verbatim>\<open>currentBranch === branchName\<close>, where \<^verbatim>\<open>currentBranch\<close> is a string or
  \<^verbatim>\<open>null\<close> and \<^verbatim>\<open>branchName\<close> a string or \<^verbatim>\<open>undefined\<close>: \<^verbatim>\<open>null\<close> equals neither.
\<close>

definition strict_eq :: "string option \<Rightarrow> string option \<Rightarrow> bool" where
  "strict_eq currentBranch branchName =
     (case (currentBranch, branchName) of (Some a, Some b) \<Rightarrow> a = b | _ \<Rightarrow> False)"

text \<open>\<^verbatim>\<open>(await git.currentBranch(..)) || null\<close>: \<^verbatim>\<open>undefined\<close> and the empty string become \<^verbatim>\<open>null\<close>.\<close>

definition or_null :: "string option \<Rightarrow> string option" where
  "or_null v = (if falsy v then None else v)"

definition switchBranch :: "('w, 'r) checkout_env \<Rightarrow> string \<Rightarrow> string option \<Rightarrow> ('w, 'r) js" where
  "switchBranch env cwd branchName =
     try_catch
       (await (git_listBranches env cwd) (\<lambda>branches.
          if \<not> array_includes branches branchName then
            resolve (createErrorResult env
              (''error: pathspec '' @ squote @ template branchName @ squote
                 @ '' did not match any file(s) known to git''))
          else
            await (try_catch (await (git_currentBranch env cwd) (\<lambda>b. resolve (or_null b)))
                             (\<lambda>_. resolve None))
              (\<lambda>currentBranch.
                 if strict_eq currentBranch branchName then
                   resolve (createErrorResult env
                     (''Already on '' @ squote @ template branchName @ squote))
                 else
                   await (git_statusMatrix env cwd) (\<lambda>statusMatrix.
                     if hasChanges statusMatrix then
                       resolve (createErrorResult env
                         (''error: Your local changes to the following files would be overwritten by checkout:''
                            @ newline
                            @ ''Please commit your changes or stash them before you switch branches.''))
                     else
                       await (git_checkout env cwd branchName None) (\<lambda>_.
                         resolve (createSuccessResult env
                           (''Switched to branch '' @ squote @ template branchName @ squote
                              @ newline)))))))
       (\<lambda>error. resolve (createErrorResult env
          (''Failed to switch branch: '' @ message_or_unknown error)))"

definition createAndSwitchBranch ::
  "('w, 'r) checkout_env \<Rightarrow> string \<Rightarrow> string option \<Rightarrow> ('w, 'r) js" where
  "createAndSwitchBranch env cwd branchName =
     try_catch
       (await (git_listBranches env cwd) (\<lambda>branches.
          if array_includes branches branchName then
            resolve (createErrorResult env
              (''fatal: A branch named '' @ squote @ template branchName @ squote
                 @ '' already exists.''))
          else
            await (try_catch (await (git_resolveRef env cwd ''HEAD'') (\<lambda>r. resolve (Some r)))
                             (\<lambda>_. resolve None))
              (\<lambda>currentRef.
                 case currentRef of
                   None \<Rightarrow>
                     resolve (createErrorResult env
                       (''fatal: Not a valid object name: '' @ squote @ ''HEAD'' @ squote @ ''.''))
                 | Some ref \<Rightarrow>
                     await (git_branch env cwd branchName ref) (\<lambda>_.
                       await (git_checkout env cwd branchName None) (\<lambda>_.
                         resolve (createSuccessResult env
                           (''Switched to a new branch '' @ squote @ template branchName @ squote
                              @ newline)))))))
       (\<lambda>error. resolve (createErrorResult env
          (''Failed to create and switch branch: '' @ message_or_unknown error)))"

definition restoreFiles :: "('w, 'r) checkout_env \<Rightarrow> string \<Rightarrow> string option \<Rightarrow> ('w, 'r) js" where
  "restoreFiles env cwd filePath =
     try_catch
       (try_catch
          (await (git_checkout env cwd (Some ''HEAD'') (Some [filePath])) (\<lambda>_.
             resolve (createSuccessResult env [])))
          (\<lambda>error.
             if instanceof_Error error \<and> str_includes (message error) ''does not exist'' then
               resolve (createErrorResult env
                 (''error: pathspec '' @ squote @ template filePath @ squote
                    @ '' did not match any file(s) known to git''))
             else reject error))
       (\<lambda>error. resolve (createErrorResult env
          (''Failed to restore file: '' @ message_or_unknown error)))"

text \<open>
  \<^verbatim>\<open>execute\<close>: the \<^verbatim>\<open>default\<close> case of its \<^verbatim>\<open>switch\<close> has no counterpart, since
  \<^verbatim>\<open>parseArgs\<close> only ever returns one of the three actions.
\<close>

definition GitCheckoutCommand_execute :: "('w, 'r) checkout_env \<Rightarrow> string list \<Rightarrow> string \<Rightarrow> ('w, 'r) js" where
  "GitCheckoutCommand_execute env args cwd =
     try_catch
       (await (try_catch (await (fs_stat env (cwd @ ''/.git'')) (\<lambda>_. resolve True))
                         (\<lambda>_. resolve False))
          (\<lambda>in_repository.
             if \<not> in_repository then
               resolve (createErrorResult env
                 ''fatal: not a git repository (or any of the parent directories): .git'')
             else
               (case parseArgs args of
                  (act, target, _) \<Rightarrow>
                    (case act of
                       Switch \<Rightarrow> switchBranch env cwd target
                     | Create \<Rightarrow> createAndSwitchBranch env cwd target
                     | Restore \<Rightarrow> restoreFiles env cwd target))))
       (\<lambda>error. resolve (createErrorResult env
          (''git checkout: '' @ message_or_unknown error)))"

text \<open>
  An example set of collaborators, for concrete runs: the world counts the calls made.
  The directory is a repository iff \<open>in_repository\<close>; \<open>branches\<close>, \<open>current\<close> and
  \<open>statusMatrix\<close> are what isomorphic-git reports, and \<^verbatim>\<open>listBranches\<close> rejects
  when \<open>branches\<close> is \<open>None\<close>. Results are \<open>Inl stderr\<close> for an error and
  \<open>Inr stdout\<close> for a success.
\<close>

definition called :: "'a \<Rightarrow> (nat, 'a) js" where
  "called x = (\<lambda>n. (Inr x, Suc n))"

definition failed :: "string \<Rightarrow> (nat, 'a) js" where
  "failed msg = (\<lambda>n. (Inl (new_Error msg), Suc n))"

definition example_env ::
  "bool \<Rightarrow> string list option \<Rightarrow> string option \<Rightarrow> status_row list
     \<Rightarrow> (nat, string + string) checkout_env" where
  "example_env in_repository branches current statusMatrix =
     \<lparr>fs_stat = (\<lambda>_. if in_repository then called () else failed ''ENOENT''),
      git_listBranches = (\<lambda>_. case branches of None \<Rightarrow> failed ''corrupt'' | Some bs \<Rightarrow> called bs),
      git_currentBranch = (\<lambda>_. called current),
      git_statusMatrix = (\<lambda>_. called statusMatrix),
      git_checkout = (\<lambda>_ _ _. called ()),
      git_resolveRef = (\<lambda>_ _. called ''0123abc''),
      git_branch = (\<lambda>_ _ _. called ()),
      createSuccessResult = Inr,
      createErrorResult = Inl\<rparr>"

section \<open>The build and typecheck tools\<close>

text \<open>
  What a JavaScript function returns, as far as the tools go: a string, or an object
  with its own properties in order.
\<close>

datatype js_value = JString string | JObject "(string \<times> js_value) list"

text \<open>
  A \<^verbatim>\<open>ToolResult\<close> is a value with a string \<^verbatim>\<open>content\<close> property. A string has no
  such property.
\<close>

definition is_ToolResult :: "js_value \<Rightarrow> bool" where
  "is_ToolResult v =
     (case v of
        JString _ \<Rightarrow> False
      | JObject props \<Rightarrow>
          (case map_of props ''content'' of Some (JString _) \<Rightarrow> True | _ \<Rightarrow> False))"

text \<open>The pictographs of the tools' messages, as UTF-8.\<close>

definition cross_mark :: string where
  "cross_mark = [CHR 0xE2, CHR 0x9D, CHR 0x8C]"

definition check_mark :: string where
  "check_mark = [CHR 0xE2, CHR 0x9C, CHR 0x85]"

definition magnifier :: string where
  "magnifier = [CHR 0xF0, CHR 0x9F, CHR 0x94, CHR 0x8D]"

definition file_folder :: string where
  "file_folder = [CHR 0xF0, CHR 0x9F, CHR 0x93, CHR 0x81]"

definition package :: string where
  "package = [CHR 0xF0, CHR 0x9F, CHR 0x93, CHR 0xA6]"

definition page :: string where
  "page = [CHR 0xF0, CHR 0x9F, CHR 0x93, CHR 0x84]"

definition rocket :: string where
  "rocket = [CHR 0xF0, CHR 0x9F, CHR 0x9A, CHR 0x80]"

text \<open>
  \<^verbatim>\<open>TypecheckTool\<close>: its two fields, \<^verbatim>\<open>fs\<close> (of which only \<^verbatim>\<open>readFile\<close> is called,
  with a path and an encoding) and \<^verbatim>\<open>cwd\<close>.
\<close>

record 'w TypecheckTool =
  tc_readFile :: "string \<Rightarrow> string \<Rightarrow> ('w, string) js"
  tc_cwd :: string

text \<open>
  \<^verbatim>\<open>TypecheckTool.execute\<close>: reads \<^verbatim>\<open>tsconfig.json\<close>; a failed read throws an Error
  that the outer handler wraps and throws again; otherwise the method returns the
  success text, a string.
\<close>

definition TypecheckTool_execute :: "'w TypecheckTool \<Rightarrow> ('w, js_value) js" where
  "TypecheckTool_execute this =
     try_catch
       (await (try_catch (await (tc_readFile this (tc_cwd this @ ''/tsconfig.json'') ''utf8'')
                            (\<lambda>_. resolve ()))
                 (\<lambda>_. reject (new_Error
                    (cross_mark @ '' Could not find tsconfig.json at '' @ tc_cwd this
                       @ ''. Make sure you'' @ squote @ ''re in a valid TypeScript project.''))))
          (\<lambda>_. resolve (JString
             (check_mark @ '' No type errors found.'' @ newline @ newline
                @ magnifier @ '' TypeScript compilation completed successfully.'' @ newline
                @ file_folder @ '' Project: '' @ tc_cwd this))))
       (\<lambda>error. reject (new_Error (cross_mark @ '' Type check failed: '' @ as_string error)))"

text \<open>
  \<^verbatim>\<open>BuildProjectTool\<close>: \<^verbatim>\<open>buildProject\<close> is a collaborator, called with the tool's
  \<^verbatim>\<open>esmUrl\<close> and \<^verbatim>\<open>cwd\<close> (its \<^verbatim>\<open>fs\<close> and the \<^verbatim>\<open>DOMParser\<close> belong to the world);
  it resolves with the generated files, by name in order, and the output path.
\<close>

record build_result =
  files :: "string list"
  outputPath :: string

record 'w BuildProjectTool =
  buildProject :: "string \<Rightarrow> string \<Rightarrow> ('w, build_result) js"
  bp_cwd :: string
  bp_esmUrl :: string

text \<open>A number in a template literal: its decimal digits.\<close>

fun decimal :: "nat \<Rightarrow> string" where
  "decimal n =
     (if n < 10 then [char_of (48 + n)] else decimal (n div 10) @ [char_of (48 + n mod 10)])"

text \<open>\<^verbatim>\<open>lines.join('\n')\<close>.\<close>

fun join_lines :: "string list \<Rightarrow> string" where
  "join_lines [] = []"
| "join_lines [l] = l"
| "join_lines (l # ls) = l @ newline @ join_lines ls"

definition BuildProjectTool_execute :: "'w BuildProjectTool \<Rightarrow> ('w, js_value) js" where
  "BuildProjectTool_execute this =
     try_catch
       (await (buildProject this (bp_esmUrl this) (bp_cwd this)) (\<lambda>result.
          let fileCount = length (files result);
              fileList = join_lines (map (\<lambda>file. ''  '' @ page @ '' '' @ file) (files result))
          in resolve (JObject
               [(''content'', JString
                  (check_mark @ '' Successfully built project!'' @ newline @ newline
                     @ file_folder @ '' Output: '' @ outputPath result @ newline
                     @ package @ '' Files generated: '' @ decimal fileCount @ newline @ newline
                     @ fileList @ newline @ newline
                     @ rocket @ '' Your project is ready for deployment!''))])))
       (\<lambda>error. reject (new_Error (cross_mark @ '' Build failed: '' @ as_string error)))"

text \<open>A TypeScript project whose \<^verbatim>\<open>tsconfig.json\<close> reads as \<open>{}\<close>; the world counts the calls.\<close>

definition ts_project :: "nat TypecheckTool" where
  "ts_project = \<lparr>tc_readFile = (\<lambda>_ _. called ''{}''), tc_cwd = ''/projects/p1''\<rparr>"

section \<open>ElectronFSAdapter\<close>

text \<open>
  File contents as they cross the adapter: a string, a plain array of numbers (what IPC
  carries) or a \<^verbatim>\<open>Uint8Array\<close>, whose elements are bytes: \<^verbatim>\<open>new Uint8Array(array)\<close>
  takes each number modulo 256, and \<^verbatim>\<open>Array.from\<close> gives the bytes back as numbers.
  The \<^verbatim>\<open>options\<close> argument is absent, an encoding name, or an object whose
  \<^verbatim>\<open>encoding\<close> may be missing.
\<close>

datatype file_data = Text string | Array "nat list" | Uint8Array "8 word list"

definition new_Uint8Array :: "nat list \<Rightarrow> file_data" where
  "new_Uint8Array numbers = Uint8Array (map of_nat numbers)"

definition Array_from :: "8 word list \<Rightarrow> file_data" where
  "Array_from bytes = Array (map unat bytes)"

datatype fs_options = NoOptions | EncodingName string | EncodingObject "string option"

text \<open>\<^verbatim>\<open>typeof options === 'string' ? options : options?.encoding\<close>.\<close>

definition encoding_of :: "fs_options \<Rightarrow> string option" where
  "encoding_of options =
     (case options of NoOptions \<Rightarrow> None | EncodingName e \<Rightarrow> Some e | EncodingObject e \<Rightarrow> e)"

text \<open>
  The Electron main process behind \<^verbatim>\<open>window.electron.fs\<close>: each call is one IPC round
  trip on the main process's world \<open>'w\<close>.
\<close>

record 'w electron_fs =
  ipc_readFile :: "string \<Rightarrow> string option \<Rightarrow> ('w, file_data) js"
  ipc_writeFile :: "string \<Rightarrow> file_data \<Rightarrow> string option \<Rightarrow> ('w, unit) js"

datatype ipc_call =
    IpcReadFile string "string option"
  | IpcWriteFile string file_data "string option"

text \<open>
  The adapter and what it talks to. \<open>statCache\<close> is the \<^verbatim>\<open>Map\<close> and \<open>enoentCache\<close> the
  \<^verbatim>\<open>Set\<close>, both in insertion order (\<open>'c\<close> is a cached stat entry). \<open>window_electron\<close>
  is \<^verbatim>\<open>window.electron\<close> (\<open>None\<close> outside Electron), \<open>main_process\<close> the world behind
  IPC, and \<open>ipc_log\<close> records every IPC call made, oldest first; the log is bookkeeping
  of the model, and nothing reads it.
\<close>

record ('c, 'w) ElectronFSAdapter =
  statCache :: "(string \<times> 'c) list"
  enoentCache :: "string list"
  window_electron :: "'w electron_fs option"
  main_process :: 'w
  ipc_log :: "ipc_call list"

definition STAT_CACHE_TTL :: nat where
  "STAT_CACHE_TTL = 1000"

definition ENOENT_CACHE_MAX_SIZE :: nat where
  "ENOENT_CACHE_MAX_SIZE = 5000"

text \<open>A fresh adapter: both caches empty.\<close>

definition new_ElectronFSAdapter :: "'w electron_fs option \<Rightarrow> 'w \<Rightarrow> ('c, 'w) ElectronFSAdapter" where
  "new_ElectronFSAdapter el w =
     \<lparr>statCache = [], enoentCache = [], window_electron = el, main_process = w, ipc_log = []\<rparr>"

text \<open>The getter \<^verbatim>\<open>this.electron\<close>.\<close>

definition electron :: "(('c, 'w) ElectronFSAdapter, 'w electron_fs) js" where
  "electron =
     (\<lambda>this. case window_electron this of
        None \<Rightarrow> reject (new_Error ''ElectronFSAdapter can only be used in Electron environment'') this
      | Some el \<Rightarrow> resolve el this)"

text \<open>One IPC call: it runs on the main process and is logged.\<close>

definition invoke :: "ipc_call \<Rightarrow> ('w, 'a) js \<Rightarrow> (('c, 'w) ElectronFSAdapter, 'a) js" where
  "invoke call remote =
     (\<lambda>this. case remote (main_process this) of
        (r, w') \<Rightarrow> (r, this\<lparr>main_process := w', ipc_log := ipc_log this @ [call]\<rparr>))"

text \<open>
  \<^verbatim>\<open>Set.add\<close>, \<^verbatim>\<open>Set.delete\<close> and \<^verbatim>\<open>Map.delete\<close> on the insertion-ordered
  representations: adding a member again leaves its place.
\<close>

definition set_add :: "'a \<Rightarrow> 'a list \<Rightarrow> 'a list" where
  "set_add x xs = (if x \<in> set xs then xs else xs @ [x])"

definition set_delete :: "'a \<Rightarrow> 'a list \<Rightarrow> 'a list" where
  "set_delete x xs = removeAll x xs"

definition map_delete :: "'k \<Rightarrow> ('k \<times> 'v) list \<Rightarrow> ('k \<times> 'v) list" where
  "map_delete k m = filter (\<lambda>(k', _). k' \<noteq> k) m"

text \<open>
  White space as \<^verbatim>\<open>trim\<close> and the pattern \<^verbatim>\<open>\s\<close> see it. Strings are UTF-8 here, so a
  white-space character is one of the six ASCII ones (tab, line feed, vertical tab, form
  feed, carriage return, space), the two bytes of U+00A0, or the three bytes of U+1680,
  U+2000 to U+200A, U+2028, U+2029, U+202F, U+205F, U+3000 or U+FEFF. (A string with
  an unpaired surrogate has no UTF-8 form and is not covered.)
\<close>

definition ascii_space :: "char \<Rightarrow> bool" where
  "ascii_space c = (c \<in> set [CHR 0x09, CHR 0x0A, CHR 0x0B, CHR 0x0C, CHR 0x0D, CHR 0x20])"

definition space2 :: "char \<Rightarrow> char \<Rightarrow> bool" where
  "space2 c d = (c = CHR 0xC2 \<and> d = CHR 0xA0)"

definition space3 :: "char \<Rightarrow> char \<Rightarrow> char \<Rightarrow> bool" where
  "space3 c d e =
     ((c = CHR 0xE1 \<and> d = CHR 0x9A \<and> e = CHR 0x80) \<or>
      (c = CHR 0xE2 \<and> d = CHR 0x80 \<and>
         (128 \<le> (of_char e :: nat) \<and> (of_char e :: nat) \<le> 138 \<or>
          e \<in> set [CHR 0xA8, CHR 0xA9, CHR 0xAF])) \<or>
      (c = CHR 0xE2 \<and> d = CHR 0x81 \<and> e = CHR 0x9F) \<or>
      (c = CHR 0xE3 \<and> d = CHR 0x80 \<and> e = CHR 0x80) \<or>
      (c = CHR 0xEF \<and> d = CHR 0xBB \<and> e = CHR 0xBF))"

text \<open>The string without its leading white space.\<close>

fun skip_spaces :: "string \<Rightarrow> string" where
  "skip_spaces [] = []"
| "skip_spaces [c] = (if ascii_space c then [] else [c])"
| "skip_spaces [c, d] =
     (if ascii_space c then skip_spaces [d] else if space2 c d then [] else [c, d])"
| "skip_spaces (c # d # e # rest) =
     (if ascii_space c then skip_spaces (d # e # rest)
      else if space2 c d then skip_spaces (e # rest)
      else if space3 c d e then skip_spaces rest
      else c # d # e # rest)"

text \<open>The capital letters \<^verbatim>\<open>[A-Z]\<close>.\<close>

definition is_capital :: "char \<Rightarrow> bool" where
  "is_capital c = (65 \<le> (of_char c :: nat) \<and> (of_char c :: nat) \<le> 90)"

text \<open>\<^verbatim>\<open>!path || path.trim() === ''\<close>: nothing is left once the white space is gone.\<close>

definition blank :: "string \<Rightarrow> bool" where
  "blank path = (path = [] \<or> skip_spaces path = [])"

text \<open>
  \<^verbatim>\<open>message.match(/:\s*(E[A-Z]+):/)\<close>, the first group of the leftmost match.
  \<open>errno_after_colon\<close> matches the rest of the pattern right after a colon: white
  space, then \<open>E\<close> and at least one capital letter, then a colon. Both repetitions are
  greedy, and giving characters back cannot help either: the character after a shorter
  run is white space (not \<open>E\<close>) or a capital letter (not a colon).
\<close>

definition errno_after_colon :: "string \<Rightarrow> string option" where
  "errno_after_colon rest =
     (case skip_spaces rest of
        [] \<Rightarrow> None
      | c # cs \<Rightarrow>
          if c = CHR ''E'' \<and> takeWhile is_capital cs \<noteq> [] \<and>
             (case dropWhile is_capital cs of [] \<Rightarrow> False | d # _ \<Rightarrow> d = CHR '':'')
          then Some (c # takeWhile is_capital cs)
          else None)"

fun match_errno :: "string \<Rightarrow> string option" where
  "match_errno [] = None"
| "match_errno (c # cs) =
     (if c = CHR '':'' then
        (case errno_after_colon cs of Some errno \<Rightarrow> Some errno | None \<Rightarrow> match_errno cs)
      else match_errno cs)"

text \<open>
  \<^verbatim>\<open>unwrapElectronError\<close>: a value that is not an Error is returned as it is; an Error
  with a truthy code, or with a code in its message, becomes a new Error with that
  message and code; any other Error is returned as it is.
\<close>

definition unwrapElectronError :: "js_thrown \<Rightarrow> js_thrown" where
  "unwrapElectronError error =
     (if \<not> instanceof_Error error then error
      else if \<not> falsy (code error) then (new_Error (message error))\<lparr>code := code error\<rparr>
      else
        (case match_errno (message error) of
           Some errno \<Rightarrow> (new_Error (message error))\<lparr>code := Some errno\<rparr>
         | None \<Rightarrow> error))"

text \<open>
  The eviction in \<^verbatim>\<open>readFile\<close>'s handler: past the maximum size, the first 1000 entries
  of the set are deleted one by one.
\<close>

definition evict :: "string list \<Rightarrow> string list" where
  "evict cache =
     (if length cache > ENOENT_CACHE_MAX_SIZE then fold set_delete (take 1000 cache) cache
      else cache)"

text \<open>
  An asynchronous method runs up to its \<^verbatim>\<open>await\<close>, and goes on when the awaited
  promise settles; other calls of the adapter may run in between. A call that has
  started has either settled already, with its outcome, or is pending, and \<open>Pending\<close>
  holds what the main process will answer.
\<close>

datatype 'a started = Settled "js_thrown + 'a" | Pending "js_thrown + 'a"

text \<open>\<^verbatim>\<open>readFile\<close>'s \<^verbatim>\<open>catch\<close> block.\<close>

definition readFile_catch :: "string \<Rightarrow> js_thrown \<Rightarrow> (('c, 'w) ElectronFSAdapter, file_data) js" where
  "readFile_catch path error =
     (\<lambda>this.
        let unwrapped = unwrapElectronError error in
        reject unwrapped
          (if code unwrapped = Some ''ENOENT''
           then this\<lparr>enoentCache := evict (set_add path (enoentCache this))\<rparr>
           else this))"

text \<open>
  \<^verbatim>\<open>readFile\<close> up to \<^verbatim>\<open>await this.electron.fs.readFile(path, encoding)\<close>: the two
  checks and the getter throw into the \<^verbatim>\<open>catch\<close> block at once; otherwise the IPC
  call is made and the method is pending.
\<close>

definition readFile_start ::
  "string \<Rightarrow> fs_options \<Rightarrow> ('c, 'w) ElectronFSAdapter
     \<Rightarrow> file_data started \<times> ('c, 'w) ElectronFSAdapter" where
  "readFile_start path options this =
     (if blank path then
        (case readFile_catch path
                ((new_Error (''EINVAL: invalid path '' @ squote @ squote))\<lparr>code := Some ''EINVAL''\<rparr>)
                this of
           (r, this') \<Rightarrow> (Settled r, this'))
      else if path \<in> set (enoentCache this) then
        (case readFile_catch path
                ((new_Error (''ENOENT: no such file or directory, open ''
                    @ squote @ path @ squote))\<lparr>code := Some ''ENOENT''\<rparr>)
                this of
           (r, this') \<Rightarrow> (Settled r, this'))
      else
        (let encoding = encoding_of options in
         case electron this of
           (Inl error, this') \<Rightarrow>
             (case readFile_catch path error this' of (r, this'') \<Rightarrow> (Settled r, this''))
         | (Inr el, this') \<Rightarrow>
             (case invoke (IpcReadFile path encoding) (ipc_readFile el path encoding) this' of
                (answer, this'') \<Rightarrow> (Pending answer, this''))))"

text \<open>
  \<^verbatim>\<open>readFile\<close> from the \<^verbatim>\<open>await\<close> on, once the main process has answered: a rejection
  goes to the \<^verbatim>\<open>catch\<close> block; an array read without an encoding becomes a
  \<^verbatim>\<open>Uint8Array\<close>.
\<close>

definition readFile_settle ::
  "string \<Rightarrow> fs_options \<Rightarrow> js_thrown + file_data
     \<Rightarrow> (('c, 'w) ElectronFSAdapter, file_data) js" where
  "readFile_settle path options answer =
     (case answer of
        Inl error \<Rightarrow> readFile_catch path error
      | Inr result \<Rightarrow>
          (case result of
             Array numbers \<Rightarrow>
               if falsy (encoding_of options) then resolve (new_Uint8Array numbers)
               else resolve result
           | _ \<Rightarrow> resolve result))"


text \<open>
  \<^verbatim>\<open>path.lastIndexOf('/')\<close> (\<open>-1\<close> when there is none) and
  \<^verbatim>\<open>path.substring(0, end)\<close> (a negative end counts as 0).
\<close>

definition lastIndexOf :: "string \<Rightarrow> char \<Rightarrow> int" where
  "lastIndexOf s c =
     (if c \<in> set s then int (length s - 1 - length (takeWhile (\<lambda>x. x \<noteq> c) (rev s))) else - 1)"

definition substring0 :: "string \<Rightarrow> int \<Rightarrow> string" where
  "substring0 s e = take (nat e) s"

text \<open>
  \<^verbatim>\<open>writeFile\<close> up to \<^verbatim>\<open>await this.electron.fs.writeFile(..)\<close>, and from there on once
  the main process has answered: only a write that resolved invalidates the caches.
\<close>

definition writeFile_start ::
  "string \<Rightarrow> file_data \<Rightarrow> fs_options \<Rightarrow> ('c, 'w) ElectronFSAdapter
     \<Rightarrow> unit started \<times> ('c, 'w) ElectronFSAdapter" where
  "writeFile_start path data options this =
     (let encoding = encoding_of options;
          dataToWrite = (case data of Uint8Array bytes \<Rightarrow> Array_from bytes | _ \<Rightarrow> data)
      in case electron this of
           (Inl error, this') \<Rightarrow> (Settled (Inl (unwrapElectronError error)), this')
         | (Inr el, this') \<Rightarrow>
             (case invoke (IpcWriteFile path dataToWrite encoding)
                     (ipc_writeFile el path dataToWrite encoding) this' of
                (answer, this'') \<Rightarrow> (Pending answer, this'')))"

definition writeFile_settle ::
  "string \<Rightarrow> js_thrown + unit \<Rightarrow> (('c, 'w) ElectronFSAdapter, unit) js" where
  "writeFile_settle path answer =
     (case answer of
        Inl error \<Rightarrow> reject (unwrapElectronError error)
      | Inr result \<Rightarrow>
          (\<lambda>this.
             let parentDir = substring0 path (lastIndexOf path (CHR ''/''));
                 stats = map_delete (''lstat:'' @ path) (map_delete path (statCache this));
                 stats' = (if parentDir \<noteq> []
                           then map_delete (''lstat:'' @ parentDir) (map_delete parentDir stats)
                           else stats)
             in resolve result
                  (this\<lparr>statCache := stats',
                        enoentCache := set_delete path (enoentCache this)\<rparr>)))"


definition clearCaches :: "('c, 'w) ElectronFSAdapter \<Rightarrow> ('c, 'w) ElectronFSAdapter" where
  "clearCaches this = this\<lparr>statCache := [], enoentCache := []\<rparr>"

text \<open>The adapter after one IPC call that left the main process as \<open>w'\<close>.\<close>

definition after_ipc :: "('c, 'w) ElectronFSAdapter \<Rightarrow> ipc_call \<Rightarrow> 'w \<Rightarrow> ('c, 'w) ElectronFSAdapter" where
  "after_ipc this call w' = this\<lparr>main_process := w', ipc_log := ipc_log this @ [call]\<rparr>"

text \<open>
  What holds of the negative cache in every state the adapter can reach: it is a set
  (no entry twice) of at most \<open>ENOENT_CACHE_MAX_SIZE\<close> entries.
\<close>

definition cache_ok :: "('c, 'w) ElectronFSAdapter \<Rightarrow> bool" where
  "cache_ok this =
     (distinct (enoentCache this) \<and> length (enoentCache this) \<le> ENOENT_CACHE_MAX_SIZE)"

text \<open>
  The steps that touch the negative cache, in whatever order the scheduler runs them,
  and the adapter after a sequence of them. A settling step carries the main process's
  answer. The adapter's other methods (\<^verbatim>\<open>stat\<close>, \<^verbatim>\<open>lstat\<close>, \<^verbatim>\<open>readdir\<close>,
  \<^verbatim>\<open>mkdir\<close>, \<^verbatim>\<open>unlink\<close>, \<^verbatim>\<open>rmdir\<close>, \<^verbatim>\<open>rename\<close>, \<^verbatim>\<open>readlink\<close>, \<^verbatim>\<open>symlink\<close>)
  neither read nor change \<open>enoentCache\<close>.
\<close>

datatype adapter_step =
    ReadFileStart string fs_options
  | ReadFileSettle string fs_options "js_thrown + file_data"
  | WriteFileStart string file_data fs_options
  | WriteFileSettle string "js_thrown + unit"
  | ClearCaches

fun after_step :: "adapter_step \<Rightarrow> ('c, 'w) ElectronFSAdapter \<Rightarrow> ('c, 'w) ElectronFSAdapter" where
  "after_step (ReadFileStart path options) this = snd (readFile_start path options this)"
| "after_step (ReadFileSettle path options answer) this =
     snd (readFile_settle path options answer this)"
| "after_step (WriteFileStart path data options) this =
     snd (writeFile_start path data options this)"
| "after_step (WriteFileSettle path answer) this = snd (writeFile_settle path answer this)"
| "after_step ClearCaches this = clearCaches this"

definition after_steps ::
  "adapter_step list \<Rightarrow> ('c, 'w) ElectronFSAdapter \<Rightarrow> ('c, 'w) ElectronFSAdapter" where
  "after_steps steps this = fold after_step steps this"











section \<open>The session store\<close>

text \<open>
  Modelled from the spec: the \<^verbatim>\<open>SessionManager\<close> class is not among the sources (only
  its test file is), so the data model below follows section 3 of the specification:
  a Message has a role, a content string, an optional \<^verbatim>\<open>reasoning_content\<close>, an
  optional ordered sequence of tool calls and an optional \<^verbatim>\<open>tool_call_id\<close>; a ToolCall
  has an id, a name and an opaque argument payload.
\<close>

datatype role = System | User | Assistant | Tool

record ToolCall =
  call_id :: string
  call_name :: string
  call_arguments :: string

record Message =
  role :: role
  content :: string
  reasoning_content :: "string option"
  tool_calls :: "ToolCall list option"
  tool_call_id :: "string option"

datatype generationState = Idle | Requesting | Streaming | ExecutingTools | Cancelling

text \<open>
  Modelled from the spec: a Session (section 3) has an immutable \<^verbatim>\<open>projectId\<close>, its
  \<^verbatim>\<open>messages\<close> in conversational order, the optional \<^verbatim>\<open>streamingMessage\<close>, a
  \<^verbatim>\<open>generationState\<close>, and the two mappings of tool name to Tool capability supplied at
  load time. The Tool capability is a collaborator and stays abstract (\<open>'t\<close>).
\<close>

record 't Session =
  projectId :: string
  messages :: "Message list"
  streamingMessage :: "Message option"
  generationState :: generationState
  tools :: "(string \<times> 't) list"
  customTools :: "(string \<times> 't) list"

text \<open>
  Modelled from the spec: the persistence capability (section 6), an asynchronous read of
  a project's stored message list (\<open>None\<close> when none is stored) and an asynchronous
  write of it, on the storage \<open>'w\<close>.
\<close>

record 'w persistence =
  read_messages :: "string \<Rightarrow> ('w, Message list option) js"
  write_messages :: "string \<Rightarrow> Message list \<Rightarrow> ('w, unit) js"

text \<open>
  Modelled from the spec: the Session Store (section 4.2) owns the in-memory map from
  project id to Session. Sessions are objects with an identity: \<open>heap\<close> holds every
  Session constructed so far, a reference is a position in it, and \<open>sessions\<close> maps a
  project id to the reference of its Session. \<open>storage\<close> is what the persistence
  capability reads and writes.
\<close>

record ('t, 'w) SessionManager =
  heap :: "'t Session list"
  sessions :: "string \<rightharpoonup> nat"
  storage :: 'w

definition deref :: "('t, 'w) SessionManager \<Rightarrow> nat \<Rightarrow> 't Session" where
  "deref m ref = heap m ! ref"

text \<open>
  Modelled from the spec: \<^verbatim>\<open>getSession(projectId)\<close> (section 4.2) is a pure lookup with
  no side effects.
\<close>

definition getSession :: "('t, 'w) SessionManager \<Rightarrow> string \<Rightarrow> nat option" where
  "getSession m pid = sessions m pid"

text \<open>
  Modelled from the spec: \<^verbatim>\<open>loadSession(projectId, tools, customTools)\<close> (section 4.2)
  returns the existing in-memory Session if present, ignoring the \<^verbatim>\<open>tools\<close> and
  \<^verbatim>\<open>customTools\<close> arguments on a cache hit; otherwise it constructs a new Session,
  attempts to restore persisted messages from storage (the empty list if none exist or
  the storage read fails), and caches it. A new Session has no streaming message and is
  Idle, the initial state (section 4.4).
\<close>

definition loadSession ::
  "'w persistence \<Rightarrow> string \<Rightarrow> (string \<times> 't) list \<Rightarrow> (string \<times> 't) list
     \<Rightarrow> ('t, 'w) SessionManager \<Rightarrow> nat \<times> ('t, 'w) SessionManager" where
  "loadSession persist pid tls customTls m =
     (case sessions m pid of
        Some ref \<Rightarrow> (ref, m)
      | None \<Rightarrow>
          (case read_messages persist pid (storage m) of
             (stored, w') \<Rightarrow>
               let restored = (case stored of Inr (Some msgs) \<Rightarrow> msgs | _ \<Rightarrow> []);
                   session = \<lparr>projectId = pid, messages = restored, streamingMessage = None,
                              generationState = Idle, tools = tls, customTools = customTls\<rparr>;
                   ref = length (heap m)
               in (ref, m\<lparr>heap := heap m @ [session],
                           sessions := (sessions m)(pid \<mapsto> ref),
                           storage := w'\<rparr>)))"

text \<open>
  An example store: the storage is the list of persisted message logs by project id, a
  read never fails, and nothing has been loaded yet.
\<close>

definition example_persistence :: "(string \<times> Message list) list persistence" where
  "example_persistence =
     \<lparr>read_messages = (\<lambda>pid disk. (Inr (map_of disk pid), disk)),
      write_messages = (\<lambda>pid msgs disk. (Inr (), (pid, msgs) # disk))\<rparr>"

definition user_message :: "string \<Rightarrow> Message" where
  "user_message text =
     \<lparr>role = User, content = text, reasoning_content = None, tool_calls = None,
      tool_call_id = None\<rparr>"

definition example_manager :: "(unit, (string \<times> Message list) list) SessionManager" where
  "example_manager =
     \<lparr>heap = [], sessions = Map.empty, storage = [(''p1'', [user_message ''hi''])]\<rparr>"

section \<open>GitCheckoutCommand: every call resolves\<close>

lemmas js_defs = try_catch_def await_def resolve_def reject_def

lemma try_catch_resolves:
  "\<exists>r w'. try_catch m (\<lambda>error. resolve (f error)) w = (Inr r, w')"
  by (auto simp: js_defs split: prod.splits sum.splits)

lemma try_catch_of_resolved:
  "m w = (Inr r, w') \<Longrightarrow> try_catch m h w = (Inr r, w')"
  by (simp add: try_catch_def)

lemma switchBranch_total: "\<exists>r w'. switchBranch env cwd b w = (Inr r, w')"
  unfolding switchBranch_def by (rule try_catch_resolves)

lemma createAndSwitchBranch_total: "\<exists>r w'. createAndSwitchBranch env cwd b w = (Inr r, w')"
  unfolding createAndSwitchBranch_def by (rule try_catch_resolves)

lemma restoreFiles_total: "\<exists>r w'. restoreFiles env cwd b w = (Inr r, w')"
  unfolding restoreFiles_def by (rule try_catch_resolves)

lemma execute_total: "\<exists>r w'. GitCheckoutCommand_execute env args cwd w = (Inr r, w')"
  unfolding GitCheckoutCommand_execute_def by (rule try_catch_resolves)

lemma execute_not_repo:
  "fs_stat env (cwd @ ''/.git'') w = (Inl e, w1) \<Longrightarrow>
   GitCheckoutCommand_execute env args cwd w =
     (Inr (createErrorResult env
        ''fatal: not a git repository (or any of the parent directories): .git''), w1)"
  by (simp add: GitCheckoutCommand_execute_def js_defs)

text \<open>
  Inside a repository the outer handler is never entered, because each of the three
  sub-commands resolves: the call is the sub-command's.
\<close>

lemma execute_in_repo:
  assumes "fs_stat env (cwd @ ''/.git'') w = (Inr u, w1)" and "parseArgs args = (act, target, cb)"
  shows "GitCheckoutCommand_execute env args cwd w =
     (case act of Switch \<Rightarrow> switchBranch env cwd target w1
      | Create \<Rightarrow> createAndSwitchBranch env cwd target w1
      | Restore \<Rightarrow> restoreFiles env cwd target w1)"
proof -
  let ?inner = "case act of Switch \<Rightarrow> switchBranch env cwd target w1
      | Create \<Rightarrow> createAndSwitchBranch env cwd target w1
      | Restore \<Rightarrow> restoreFiles env cwd target w1"
  obtain r w' where r: "?inner = (Inr r, w')"
    using switchBranch_total[of env cwd target w1] createAndSwitchBranch_total[of env cwd target w1]
      restoreFiles_total[of env cwd target w1]
    by (cases act) auto
  show ?thesis
    unfolding GitCheckoutCommand_execute_def r
    by (rule try_catch_of_resolved) (use assms r in \<open>simp add: js_defs split: action.splits\<close>)
qed

lemma switchBranch_unknown:
  "git_listBranches env cwd w = (Inr branches, w1) \<Longrightarrow> \<not> array_includes branches branchName \<Longrightarrow>
   switchBranch env cwd branchName w =
     (Inr (createErrorResult env (''error: pathspec '' @ squote @ template branchName @ squote
              @ '' did not match any file(s) known to git'')), w1)"
  by (simp add: switchBranch_def js_defs)

lemma switchBranch_already_on:
  "git_listBranches env cwd w = (Inr branches, w1) \<Longrightarrow> array_includes branches branchName \<Longrightarrow>
   git_currentBranch env cwd w1 = (Inr b, w2) \<Longrightarrow> strict_eq (or_null b) branchName \<Longrightarrow>
   switchBranch env cwd branchName w =
     (Inr (createErrorResult env (''Already on '' @ squote @ template branchName @ squote)), w2)"
  by (simp add: switchBranch_def js_defs)

lemma switchBranch_local_changes:
  "git_listBranches env cwd w = (Inr branches, w1) \<Longrightarrow> array_includes branches branchName \<Longrightarrow>
   git_currentBranch env cwd w1 = (cur, w2) \<Longrightarrow>
   \<not> strict_eq (case cur of Inl _ \<Rightarrow> None | Inr b \<Rightarrow> or_null b) branchName \<Longrightarrow>
   git_statusMatrix env cwd w2 = (Inr statusMatrix, w3) \<Longrightarrow> hasChanges statusMatrix \<Longrightarrow>
   switchBranch env cwd branchName w =
     (Inr (createErrorResult env
        (''error: Your local changes to the following files would be overwritten by checkout:''
           @ newline @ ''Please commit your changes or stash them before you switch branches.'')), w3)"
  by (cases cur) (simp_all add: switchBranch_def js_defs)

lemma switchBranch_listBranches_rejects:
  "git_listBranches env cwd w = (Inl e, w1) \<Longrightarrow>
   switchBranch env cwd branchName w =
     (Inr (createErrorResult env (''Failed to switch branch: '' @ message_or_unknown e)), w1)"
  by (simp add: switchBranch_def js_defs)

lemma createAndSwitchBranch_exists:
  "git_listBranches env cwd w = (Inr branches, w1) \<Longrightarrow> array_includes branches branchName \<Longrightarrow>
   createAndSwitchBranch env cwd branchName w =
     (Inr (createErrorResult env (''fatal: A branch named '' @ squote @ template branchName @ squote
              @ '' already exists.'')), w1)"
  by (simp add: createAndSwitchBranch_def js_defs)

text \<open>A success result is only ever built after a \<^verbatim>\<open>git.checkout\<close> that resolved.\<close>

lemma switchBranch_outcome:
  "switchBranch env cwd b w = (Inr r, w') \<Longrightarrow>
   (\<exists>m. r = createErrorResult env m) \<or>
   (\<exists>m ref fps w0. r = createSuccessResult env m \<and> git_checkout env cwd ref fps w0 = (Inr (), w'))"
  by (auto simp: switchBranch_def js_defs split: prod.splits sum.splits if_splits)

lemma createAndSwitchBranch_outcome:
  "createAndSwitchBranch env cwd b w = (Inr r, w') \<Longrightarrow>
   (\<exists>m. r = createErrorResult env m) \<or>
   (\<exists>m ref fps w0. r = createSuccessResult env m \<and> git_checkout env cwd ref fps w0 = (Inr (), w'))"
  by (auto simp: createAndSwitchBranch_def js_defs
        split: prod.splits sum.splits if_splits option.splits)

lemma restoreFiles_outcome:
  "restoreFiles env cwd b w = (Inr r, w') \<Longrightarrow>
   (\<exists>m. r = createErrorResult env m) \<or>
   (\<exists>m ref fps w0. r = createSuccessResult env m \<and> git_checkout env cwd ref fps w0 = (Inr (), w'))"
  by (auto simp: restoreFiles_def js_defs split: prod.splits sum.splits if_splits option.splits)

lemma execute_outcome:
  assumes "GitCheckoutCommand_execute env args cwd w = (Inr r, w')"
  shows "(\<exists>m. r = createErrorResult env m) \<or>
   (\<exists>m ref fps w0. r = createSuccessResult env m \<and> git_checkout env cwd ref fps w0 = (Inr (), w'))"
proof (cases "fs_stat env (cwd @ ''/.git'') w")
  case (Pair res w1)
  obtain act target cb where p: "parseArgs args = (act, target, cb)"
    by (cases "parseArgs args") auto
  show ?thesis
  proof (cases res)
    case (Inl e)
    with Pair assms show ?thesis by (auto simp: execute_not_repo)
  next
    case (Inr u)
    with Pair assms p show ?thesis
      using switchBranch_outcome[of env cwd target w1 r w']
        createAndSwitchBranch_outcome[of env cwd target w1 r w']
        restoreFiles_outcome[of env cwd target w1 r w']
      by (cases act) (simp_all add: execute_in_repo)
  qed
qed

text \<open>
  C9. \<^verbatim>\<open>GitCheckoutCommand.execute\<close> resolves for every argument list, working
  directory, set of collaborators and world: it never rejects. Outside a git repository
  the result is the error result \<open>fatal: not a git repository\<close>; a result is a success
  result only after a \<^verbatim>\<open>git.checkout\<close> that resolved, and an error result otherwise.
  When switching, an unknown branch, being on the target branch already, uncommitted
  changes, and a rejected \<^verbatim>\<open>git.listBranches\<close> each give the error result of the
  source; when creating, so does a branch that exists already.
\<close>

theorem GitCheckoutCommand_execute_never_rejects:
  "(\<exists>r w'. GitCheckoutCommand_execute env args cwd w = (Inr r, w')) \<and>
   (\<forall>e w1. fs_stat env (cwd @ ''/.git'') w = (Inl e, w1) \<longrightarrow>
      GitCheckoutCommand_execute env args cwd w =
        (Inr (createErrorResult env
           ''fatal: not a git repository (or any of the parent directories): .git''), w1)) \<and>
   (\<forall>r w'. GitCheckoutCommand_execute env args cwd w = (Inr r, w') \<longrightarrow>
      (\<exists>m. r = createErrorResult env m) \<or>
      (\<exists>m ref fps w0. r = createSuccessResult env m \<and>
         git_checkout env cwd ref fps w0 = (Inr (), w'))) \<and>
   (\<forall>u w1 target cb. fs_stat env (cwd @ ''/.git'') w = (Inr u, w1) \<and>
        parseArgs args = (Switch, target, cb) \<longrightarrow>
      (\<forall>e w2. git_listBranches env cwd w1 = (Inl e, w2) \<longrightarrow>
         GitCheckoutCommand_execute env args cwd w =
           (Inr (createErrorResult env (''Failed to switch branch: '' @ message_or_unknown e)), w2)) \<and>
      (\<forall>branches w2. git_listBranches env cwd w1 = (Inr branches, w2) \<longrightarrow>
         (\<not> array_includes branches target \<longrightarrow>
            GitCheckoutCommand_execute env args cwd w =
              (Inr (createErrorResult env (''error: pathspec '' @ squote @ template target @ squote
                 @ '' did not match any file(s) known to git'')), w2)) \<and>
         (array_includes branches target \<longrightarrow>
            (\<forall>cur w3. git_currentBranch env cwd w2 = (cur, w3) \<longrightarrow>
               (strict_eq (case cur of Inl _ \<Rightarrow> None | Inr b \<Rightarrow> or_null b) target \<longrightarrow>
                  GitCheckoutCommand_execute env args cwd w =
                    (Inr (createErrorResult env
                       (''Already on '' @ squote @ template target @ squote)), w3)) \<and>
               (\<not> strict_eq (case cur of Inl _ \<Rightarrow> None | Inr b \<Rightarrow> or_null b) target \<longrightarrow>
                  (\<forall>statusMatrix w4. git_statusMatrix env cwd w3 = (Inr statusMatrix, w4) \<and>
                       hasChanges statusMatrix \<longrightarrow>
                     GitCheckoutCommand_execute env args cwd w =
                       (Inr (createErrorResult env
                          (''error: Your local changes to the following files would be overwritten by checkout:''
                             @ newline
                             @ ''Please commit your changes or stash them before you switch branches.'')),
                        w4))))))) \<and>
   (\<forall>u w1 target cb branches w2. fs_stat env (cwd @ ''/.git'') w = (Inr u, w1) \<and>
        parseArgs args = (Create, target, cb) \<and>
        git_listBranches env cwd w1 = (Inr branches, w2) \<and> array_includes branches target \<longrightarrow>
      GitCheckoutCommand_execute env args cwd w =
        (Inr (createErrorResult env (''fatal: A branch named '' @ squote @ template target @ squote
           @ '' already exists.'')), w2))"
proof (intro conjI allI impI)
  show "\<exists>r w'. GitCheckoutCommand_execute env args cwd w = (Inr r, w')"
    by (rule execute_total)
next
  fix e w1 assume "fs_stat env (cwd @ ''/.git'') w = (Inl e, w1)"
  then show "GitCheckoutCommand_execute env args cwd w =
        (Inr (createErrorResult env
           ''fatal: not a git repository (or any of the parent directories): .git''), w1)"
    by (rule execute_not_repo)
next
  fix r w' assume "GitCheckoutCommand_execute env args cwd w = (Inr r, w')"
  then show "(\<exists>m. r = createErrorResult env m) \<or>
      (\<exists>m ref fps w0. r = createSuccessResult env m \<and>
         git_checkout env cwd ref fps w0 = (Inr (), w'))"
    by (rule execute_outcome)
next
  fix u w1 target cb e w2
  assume "fs_stat env (cwd @ ''/.git'') w = (Inr u, w1) \<and> parseArgs args = (Switch, target, cb)"
    and "git_listBranches env cwd w1 = (Inl e, w2)"
  then show "GitCheckoutCommand_execute env args cwd w =
           (Inr (createErrorResult env (''Failed to switch branch: '' @ message_or_unknown e)), w2)"
    by (simp add: execute_in_repo switchBranch_listBranches_rejects)
next
  fix u w1 target cb branches w2
  assume "fs_stat env (cwd @ ''/.git'') w = (Inr u, w1) \<and> parseArgs args = (Switch, target, cb)"
    and "git_listBranches env cwd w1 = (Inr branches, w2)"
    and "\<not> array_includes branches target"
  then show "GitCheckoutCommand_execute env args cwd w =
              (Inr (createErrorResult env (''error: pathspec '' @ squote @ template target @ squote
                 @ '' did not match any file(s) known to git'')), w2)"
    by (simp add: execute_in_repo switchBranch_unknown)
next
  fix u w1 target cb branches w2 cur w3
  assume a: "fs_stat env (cwd @ ''/.git'') w = (Inr u, w1) \<and> parseArgs args = (Switch, target, cb)"
    "git_listBranches env cwd w1 = (Inr branches, w2)"
    "array_includes branches target"
    "git_currentBranch env cwd w2 = (cur, w3)"
    "strict_eq (case cur of Inl _ \<Rightarrow> None | Inr b \<Rightarrow> or_null b) target"
  then obtain b where "cur = Inr b"
    by (cases cur) (auto simp: strict_eq_def)
  with a show "GitCheckoutCommand_execute env args cwd w =
                    (Inr (createErrorResult env
                       (''Already on '' @ squote @ template target @ squote)), w3)"
    by (simp add: execute_in_repo switchBranch_already_on)
next
  fix u w1 target cb branches w2 cur w3 statusMatrix w4
  assume "fs_stat env (cwd @ ''/.git'') w = (Inr u, w1) \<and> parseArgs args = (Switch, target, cb)"
    "git_listBranches env cwd w1 = (Inr branches, w2)"
    "array_includes branches target"
    "git_currentBranch env cwd w2 = (cur, w3)"
    "\<not> strict_eq (case cur of Inl _ \<Rightarrow> None | Inr b \<Rightarrow> or_null b) target"
    "git_statusMatrix env cwd w3 = (Inr statusMatrix, w4) \<and> hasChanges statusMatrix"
  then show "GitCheckoutCommand_execute env args cwd w =
                       (Inr (createErrorResult env
                          (''error: Your local changes to the following files would be overwritten by checkout:''
                             @ newline
                             @ ''Please commit your changes or stash them before you switch branches.'')),
                        w4)"
    by (simp add: execute_in_repo switchBranch_local_changes)
next
  fix u w1 target cb branches w2
  assume "fs_stat env (cwd @ ''/.git'') w = (Inr u, w1) \<and>
        parseArgs args = (Create, target, cb) \<and>
        git_listBranches env cwd w1 = (Inr branches, w2) \<and> array_includes branches target"
  then show "GitCheckoutCommand_execute env args cwd w =
        (Inr (createErrorResult env (''fatal: A branch named '' @ squote @ template target @ squote
           @ '' already exists.'')), w2)"
    by (simp add: execute_in_repo createAndSwitchBranch_exists)
qed

lemmas example_defs = example_env_def called_def failed_def

theorem GitCheckoutCommand_execute_never_rejects_witness:
  "GitCheckoutCommand_execute (example_env False (Some [''main'']) (Some ''main'') []) [''dev''] ''/projects/p1'' 0
     = (Inr (Inl ''fatal: not a git repository (or any of the parent directories): .git''), 1) \<and>
   GitCheckoutCommand_execute (example_env True None None []) [''dev''] ''/projects/p1'' 0
     = (Inr (Inl (''Failed to switch branch: '' @ ''corrupt'')), 2) \<and>
   GitCheckoutCommand_execute (example_env True (Some [''main'']) (Some ''main'') []) [''dev''] ''/projects/p1'' 0
     = (Inr (Inl (''error: pathspec '' @ squote @ ''dev'' @ squote
           @ '' did not match any file(s) known to git'')), 2) \<and>
   GitCheckoutCommand_execute (example_env True (Some [''main'', ''dev'']) (Some ''dev'') []) [''dev''] ''/projects/p1'' 0
     = (Inr (Inl (''Already on '' @ squote @ ''dev'' @ squote)), 3) \<and>
   GitCheckoutCommand_execute (example_env True (Some [''main'', ''dev'']) (Some ''main'') [(''a.ts'', 1, 2, 1)])
       [''dev''] ''/projects/p1'' 0
     = (Inr (Inl (''error: Your local changes to the following files would be overwritten by checkout:''
           @ newline @ ''Please commit your changes or stash them before you switch branches.'')), 4) \<and>
   GitCheckoutCommand_execute (example_env True (Some [''main'', ''dev'']) (Some ''main'') []) [''-b'', ''dev'']
       ''/projects/p1'' 0
     = (Inr (Inl (''fatal: A branch named '' @ squote @ ''dev'' @ squote @ '' already exists.'')), 2) \<and>
   (\<exists>m ref fps w0.
      GitCheckoutCommand_execute (example_env True (Some [''main'', ''dev'']) (Some ''main'') [(''a.ts'', 1, 1, 1)])
        [''dev''] ''/projects/p1'' 0 = (Inr (Inr m), 5) \<and>
      git_checkout (example_env True (Some [''main'', ''dev'']) (Some ''main'') [(''a.ts'', 1, 1, 1)])
        ''/projects/p1'' ref fps w0 = (Inr (), 5))"
proof -
  let ?cwd = "''/projects/p1''"
  note T = GitCheckoutCommand_execute_never_rejects
  have p_dev: "parseArgs [''dev''] = (Switch, Some ''dev'', False)"
    by (simp add: parseArgs_def startsWith_def falsy_def)
  have p_b: "parseArgs [''-b'', ''dev''] = (Create, Some ''dev'', True)"
    by (simp add: parseArgs_def)
  have c1: "GitCheckoutCommand_execute (example_env False (Some [''main'']) (Some ''main'') []) [''dev''] ?cwd 0
     = (Inr (Inl ''fatal: not a git repository (or any of the parent directories): .git''), 1)"
    using T[of "example_env False (Some [''main'']) (Some ''main'') []" "[''dev'']" ?cwd 0]
    by (simp add: example_defs new_Error_def)
  have c2: "GitCheckoutCommand_execute (example_env True None None []) [''dev''] ?cwd 0
     = (Inr (Inl (''Failed to switch branch: '' @ ''corrupt'')), 2)"
    using T[of "example_env True None None []" "[''dev'']" ?cwd 0] p_dev
    by (simp add: example_defs new_Error_def message_or_unknown_def ex_bool_eq)
  have c3: "GitCheckoutCommand_execute (example_env True (Some [''main'']) (Some ''main'') []) [''dev''] ?cwd 0
     = (Inr (Inl (''error: pathspec '' @ squote @ ''dev'' @ squote
           @ '' did not match any file(s) known to git'')), 2)"
    using T[of "example_env True (Some [''main'']) (Some ''main'') []" "[''dev'']" ?cwd 0] p_dev
    by (simp add: example_defs array_includes_def template_def ex_bool_eq)
  have c4: "GitCheckoutCommand_execute (example_env True (Some [''main'', ''dev'']) (Some ''dev'') []) [''dev''] ?cwd 0
     = (Inr (Inl (''Already on '' @ squote @ ''dev'' @ squote)), 3)"
    using T[of "example_env True (Some [''main'', ''dev'']) (Some ''dev'') []" "[''dev'']" ?cwd 0] p_dev
    by (simp add: example_defs array_includes_def template_def strict_eq_def or_null_def falsy_def ex_bool_eq)
  have c5: "GitCheckoutCommand_execute (example_env True (Some [''main'', ''dev'']) (Some ''main'') [(''a.ts'', 1, 2, 1)])
       [''dev''] ?cwd 0
     = (Inr (Inl (''error: Your local changes to the following files would be overwritten by checkout:''
           @ newline @ ''Please commit your changes or stash them before you switch branches.'')), 4)"
    using T[of "example_env True (Some [''main'', ''dev'']) (Some ''main'') [(''a.ts'', 1, 2, 1)]"
        "[''dev'']" ?cwd 0] p_dev
    by (simp add: example_defs array_includes_def template_def strict_eq_def or_null_def falsy_def
          hasChanges_def ex_bool_eq)
  have c6: "GitCheckoutCommand_execute (example_env True (Some [''main'', ''dev'']) (Some ''main'') []) [''-b'', ''dev'']
       ?cwd 0
     = (Inr (Inl (''fatal: A branch named '' @ squote @ ''dev'' @ squote @ '' already exists.'')), 2)"
    using T[of "example_env True (Some [''main'', ''dev'']) (Some ''main'') []" "[''-b'', ''dev'']" ?cwd 0]
      p_b
    by (simp add: example_defs array_includes_def template_def ex_bool_eq)
  have c7: "\<exists>m ref fps w0.
      GitCheckoutCommand_execute (example_env True (Some [''main'', ''dev'']) (Some ''main'') [(''a.ts'', 1, 1, 1)])
        [''dev''] ?cwd 0 = (Inr (Inr m), 5) \<and>
      git_checkout (example_env True (Some [''main'', ''dev'']) (Some ''main'') [(''a.ts'', 1, 1, 1)])
        ?cwd ref fps w0 = (Inr (), 5)"
  proof -
    let ?env = "example_env True (Some [''main'', ''dev'']) (Some ''main'') [(''a.ts'', 1, 1, 1)]"
    have run: "GitCheckoutCommand_execute ?env [''dev''] ?cwd 0
        = (Inr (Inr (''Switched to branch '' @ squote @ ''dev'' @ squote @ newline)), 5)"
      by (simp add: GitCheckoutCommand_execute_def switchBranch_def js_defs p_dev example_defs array_includes_def
            template_def strict_eq_def or_null_def falsy_def hasChanges_def)
    from T[of ?env "[''dev'']" ?cwd 0] run
    have "\<exists>m ref fps w0. (Inr (''Switched to branch '' @ squote @ ''dev'' @ squote @ newline)
              :: string + string) = createSuccessResult ?env m \<and>
            git_checkout ?env ?cwd ref fps w0 = (Inr (), 5)"
      by (simp add: example_env_def)
    with run show ?thesis by (auto simp: example_env_def)
  qed
  from c1 c2 c3 c4 c5 c6 c7 show ?thesis by blast
qed

section \<open>The tools' return values\<close>

lemma BuildProjectTool_execute_ToolResult:
  "BuildProjectTool_execute this w = (Inr v, w') \<Longrightarrow> is_ToolResult v"
  by (auto simp: BuildProjectTool_execute_def js_defs is_ToolResult_def Let_def
        split: prod.splits sum.splits)

lemma TypecheckTool_execute_string:
  assumes "TypecheckTool_execute this w = (Inr v, w')"
  shows "\<exists>s. v = JString s"
proof (cases "tc_readFile this (tc_cwd this @ ''/tsconfig.json'') ''utf8'' w")
  case (Pair res w1)
  with assms show ?thesis
    by (cases res) (auto simp add: TypecheckTool_execute_def js_defs)
qed

text \<open>
  C8. Every tool's \<^verbatim>\<open>execute\<close> is to return a \<^verbatim>\<open>ToolResult\<close>, a value with a string
  \<^verbatim>\<open>content\<close> property, when it does not throw. \<^verbatim>\<open>BuildProjectTool.execute\<close> does
  (\<open>BuildProjectTool_execute_ToolResult\<close>); \<^verbatim>\<open>TypecheckTool.execute\<close> does not: in a
  project whose \<^verbatim>\<open>tsconfig.json\<close> can be read it resolves with the bare success text,
  which has no \<^verbatim>\<open>content\<close> property.
\<close>

theorem TypecheckTool_execute_returns_bare_string:
  "TypecheckTool_execute ts_project 0 =
     (Inr (JString (check_mark @ '' No type errors found.'' @ newline @ newline
                @ magnifier @ '' TypeScript compilation completed successfully.'' @ newline
                @ file_folder @ '' Project: /projects/p1'')), 1) \<and>
   \<not> is_ToolResult (JString (check_mark @ '' No type errors found.'' @ newline @ newline
                @ magnifier @ '' TypeScript compilation completed successfully.'' @ newline
                @ file_folder @ '' Project: /projects/p1''))"
  by (simp add: TypecheckTool_execute_def js_defs ts_project_def called_def is_ToolResult_def)

section \<open>ElectronFSAdapter: the negative cache\<close>

lemma fold_set_delete: "fold set_delete ys xs = filter (\<lambda>x. x \<notin> set ys) xs"
proof (induction ys arbitrary: xs)
  case Nil
  then show ?case by simp
next
  case (Cons y ys)
  have "filter (\<lambda>x. x \<notin> set ys) (removeAll y xs) = filter (\<lambda>x. x \<notin> set (y # ys)) xs"
    by (induction xs) auto
  with Cons show ?case by (simp add: set_delete_def)
qed

lemma evict_distinct: "distinct cache \<Longrightarrow> distinct (evict cache)"
  by (simp add: evict_def fold_set_delete)

lemma filter_out_prefix:
  "set ys \<inter> set zs = {} \<Longrightarrow> filter (\<lambda>x. x \<notin> set ys) (ys @ zs) = zs"
  by (auto simp: filter_empty_conv filter_id_conv)

lemma filter_take_drop:
  assumes "distinct xs"
  shows "filter (\<lambda>x. x \<notin> set (take n xs)) xs = drop n xs"
proof -
  from assms have "distinct (take n xs @ drop n xs)" by simp
  then have "set (take n xs) \<inter> set (drop n xs) = {}"
    by (simp only: distinct_append)
  from filter_out_prefix[OF this] show ?thesis by simp
qed

lemma evict_length:
  "distinct cache \<Longrightarrow> length cache \<le> Suc ENOENT_CACHE_MAX_SIZE \<Longrightarrow>
   length (evict cache) \<le> ENOENT_CACHE_MAX_SIZE"
  by (auto simp: evict_def fold_set_delete filter_take_drop ENOENT_CACHE_MAX_SIZE_def)


lemma set_add_distinct: "distinct xs \<Longrightarrow> distinct (set_add x xs)"
  by (simp add: set_add_def)

lemma set_add_length: "length (set_add x xs) \<le> Suc (length xs)"
  by (simp add: set_add_def)




lemma unwrap_errno_error:
  "c \<noteq> [] \<Longrightarrow>
   unwrapElectronError ((new_Error m)\<lparr>code := Some c\<rparr>) = (new_Error m)\<lparr>code := Some c\<rparr>"
  by (simp add: unwrapElectronError_def new_Error_def falsy_def)

lemma unwrap_not_electron:
  "unwrapElectronError (new_Error ''ElectronFSAdapter can only be used in Electron environment'')
     = new_Error ''ElectronFSAdapter can only be used in Electron environment''"
  by (simp add: unwrapElectronError_def new_Error_def falsy_def)

text \<open>The \<^verbatim>\<open>catch\<close> block: the outcome is the unwrapped error; only \<open>ENOENT\<close> touches the cache.\<close>

lemma readFile_catch_outcome:
  "readFile_catch path error this =
     (Inl (unwrapElectronError error),
      if code (unwrapElectronError error) = Some ''ENOENT''
      then this\<lparr>enoentCache := evict (set_add path (enoentCache this))\<rparr>
      else this)"
  by (simp add: readFile_catch_def reject_def Let_def)

lemma readFile_start_blank:
  "blank path \<Longrightarrow>
   readFile_start path options this =
     (Settled (Inl ((new_Error (''EINVAL: invalid path '' @ squote @ squote))
                      \<lparr>code := Some ''EINVAL''\<rparr>)), this)"
  by (simp add: readFile_start_def readFile_catch_outcome unwrap_errno_error)

lemma readFile_start_cached:
  assumes "cache_ok this" and "path \<in> set (enoentCache this)" and "\<not> blank path"
  shows "readFile_start path options this =
     (Settled (Inl ((new_Error (''ENOENT: no such file or directory, open '' @ squote @ path @ squote))
             \<lparr>code := Some ''ENOENT''\<rparr>)), this)"
proof -
  from assms(1,2) have "evict (set_add path (enoentCache this)) = enoentCache this"
    by (simp add: cache_ok_def evict_def set_add_def)
  with assms(2,3) show ?thesis
    by (simp add: readFile_start_def readFile_catch_outcome unwrap_errno_error)
qed

lemma readFile_start_not_electron:
  assumes "\<not> blank path" and "path \<notin> set (enoentCache this)" and "window_electron this = None"
  shows "readFile_start path options this =
     (Settled (Inl (new_Error ''ElectronFSAdapter can only be used in Electron environment'')), this)"
  using assms
  by (simp add: readFile_start_def readFile_catch_outcome electron_def js_defs Let_def
        unwrap_not_electron)
     (simp add: new_Error_def)

lemma readFile_start_pending:
  assumes "\<not> blank path" and "path \<notin> set (enoentCache this)" and "window_electron this = Some el"
    and "ipc_readFile el path (encoding_of options) (main_process this) = (answer, w')"
  shows "readFile_start path options this =
     (Pending answer, after_ipc this (IpcReadFile path (encoding_of options)) w')"
  using assms
  by (simp add: readFile_start_def electron_def js_defs invoke_def Let_def after_ipc_def)

lemma readFile_settle_rejected:
  "readFile_settle path options (Inl error) this = readFile_catch path error this"
  by (simp add: readFile_settle_def)

lemma readFile_settle_resolved:
  "\<exists>d'. readFile_settle path options (Inr d) this = (Inr d', this)"
  by (cases d) (simp_all add: readFile_settle_def resolve_def)









lemma writeFile_start_not_electron:
  "window_electron this = None \<Longrightarrow>
   writeFile_start path data options this =
     (Settled (Inl (new_Error ''ElectronFSAdapter can only be used in Electron environment'')), this)"
  by (simp add: writeFile_start_def js_defs electron_def Let_def unwrap_not_electron)

lemma writeFile_start_pending:
  "window_electron this = Some el \<Longrightarrow>
   ipc_writeFile el path (case data of Uint8Array bytes \<Rightarrow> Array_from bytes | _ \<Rightarrow> data)
     (encoding_of options) (main_process this) = (answer, w') \<Longrightarrow>
   writeFile_start path data options this =
     (Pending answer,
      after_ipc this (IpcWriteFile path (case data of Uint8Array bytes \<Rightarrow> Array_from bytes | _ \<Rightarrow> data)
        (encoding_of options)) w')"
  by (simp add: writeFile_start_def js_defs electron_def invoke_def Let_def after_ipc_def)

lemma writeFile_settle_rejected:
  "writeFile_settle path (Inl error) this = (Inl (unwrapElectronError error), this)"
  by (simp add: writeFile_settle_def reject_def)

lemma writeFile_settle_resolved:
  "\<exists>stats. writeFile_settle path (Inr u) this =
     (Inr u, this\<lparr>statCache := stats, enoentCache := set_delete path (enoentCache this)\<rparr>)"
  by (auto simp: writeFile_settle_def resolve_def Let_def)

lemma writeFile_start_cache:
  "enoentCache (snd (writeFile_start path data options this)) = enoentCache this"
proof (cases "window_electron this")
  case None
  then show ?thesis by (simp add: writeFile_start_not_electron)
next
  case (Some el)
  let ?d = "case data of Uint8Array bytes \<Rightarrow> Array_from bytes | _ \<Rightarrow> data"
  obtain answer w' where
    "ipc_writeFile el path ?d (encoding_of options) (main_process this) = (answer, w')"
    by (cases "ipc_writeFile el path ?d (encoding_of options) (main_process this)") auto
  with Some show ?thesis
    by (simp add: writeFile_start_pending after_ipc_def)
qed

lemma writeFile_settle_cache:
  "enoentCache (snd (writeFile_settle path answer this)) =
     (case answer of Inl _ \<Rightarrow> enoentCache this | Inr _ \<Rightarrow> set_delete path (enoentCache this))"
proof (cases answer)
  case (Inl e)
  then show ?thesis by (simp add: writeFile_settle_rejected)
next
  case (Inr u)
  with writeFile_settle_resolved[of path u this] show ?thesis by auto
qed



lemma clearCaches_cache_ok: "cache_ok (clearCaches this)"
  by (simp add: clearCaches_def cache_ok_def)

lemma new_ElectronFSAdapter_cache_ok: "cache_ok (new_ElectronFSAdapter el w)"
  by (simp add: new_ElectronFSAdapter_def cache_ok_def)

text \<open>What each step does to the negative cache.\<close>

lemma readFile_start_cache:
  assumes ok: "cache_ok this"
  shows "enoentCache (snd (readFile_start path options this)) = enoentCache this"
proof (cases "blank path")
  case True
  then show ?thesis by (simp add: readFile_start_blank)
next
  case nb: False
  show ?thesis
  proof (cases "path \<in> set (enoentCache this)")
    case True
    with ok nb show ?thesis by (simp add: readFile_start_cached)
  next
    case nc: False
    show ?thesis
    proof (cases "window_electron this")
      case None
      with nb nc show ?thesis by (simp add: readFile_start_not_electron)
    next
      case (Some el)
      obtain answer w' where
        "ipc_readFile el path (encoding_of options) (main_process this) = (answer, w')"
        by (cases "ipc_readFile el path (encoding_of options) (main_process this)") auto
      with nb nc Some show ?thesis
        by (simp add: readFile_start_pending after_ipc_def)
    qed
  qed
qed

lemma readFile_settle_cache:
  "enoentCache (snd (readFile_settle path options answer this)) =
     (case answer of
        Inl error \<Rightarrow>
          if code (unwrapElectronError error) = Some ''ENOENT''
          then evict (set_add path (enoentCache this)) else enoentCache this
      | Inr _ \<Rightarrow> enoentCache this)"
proof (cases answer)
  case (Inl e)
  then show ?thesis by (simp add: readFile_settle_rejected readFile_catch_outcome)
next
  case (Inr d)
  with readFile_settle_resolved[of path options d this] show ?thesis by auto
qed

lemma cache_ok_cong: "enoentCache this' = enoentCache this \<Longrightarrow> cache_ok this' = cache_ok this"
  by (simp add: cache_ok_def)

lemma evict_add_ok:
  assumes "distinct cache" and "length cache \<le> ENOENT_CACHE_MAX_SIZE"
  shows "distinct (evict (set_add path cache)) \<and>
         length (evict (set_add path cache)) \<le> ENOENT_CACHE_MAX_SIZE"
  using assms set_add_length[of path cache]
  by (simp add: evict_distinct set_add_distinct evict_length)

lemma after_step_cache_ok:
  assumes ok: "cache_ok this"
  shows "cache_ok (after_step step this)"
proof (cases step)
  case (ReadFileStart path options)
  with ok readFile_start_cache[OF ok, of path options] show ?thesis
    by (simp add: cache_ok_def)
next
  case (ReadFileSettle path options answer)
  with ok evict_add_ok[of "enoentCache this" path] readFile_settle_cache[of path options answer this]
  show ?thesis
    by (cases answer) (auto simp: cache_ok_def)
next
  case (WriteFileStart path data options)
  with ok writeFile_start_cache[of path data options this] show ?thesis
    by (simp add: cache_ok_def)
next
  case (WriteFileSettle path answer)
  have "length (removeAll path (enoentCache this)) \<le> ENOENT_CACHE_MAX_SIZE"
    using ok length_removeAll_less_eq[of path "enoentCache this"]
    unfolding cache_ok_def by (meson le_trans)
  with WriteFileSettle ok writeFile_settle_cache[of path answer this] show ?thesis
    by (cases answer) (auto simp: cache_ok_def set_delete_def distinct_removeAll)
next
  case ClearCaches
  then show ?thesis by (simp add: clearCaches_cache_ok)
qed

lemma after_steps_cache_ok: "cache_ok this \<Longrightarrow> cache_ok (after_steps steps this)"
  unfolding after_steps_def
  by (induction steps arbitrary: this) (simp_all add: after_step_cache_ok)

text \<open>Every state a fresh adapter reaches has its negative cache within the bound.\<close>

lemma reachable_cache_ok: "cache_ok (after_steps steps (new_ElectronFSAdapter el w))"
  by (simp add: after_steps_cache_ok new_ElectronFSAdapter_cache_ok)













section \<open>The session store: loading twice\<close>

lemma loadSession_caches:
  assumes "loadSession persist pid tls customTls m = (ref, m1)"
  shows "sessions m1 pid = Some ref"
proof (cases "sessions m pid")
  case None
  with assms show ?thesis
    by (auto simp: loadSession_def Let_def split: prod.splits)
next
  case (Some r)
  with assms show ?thesis
    by (simp add: loadSession_def)
qed

lemma loadSession_cache_hit:
  "sessions m pid = Some ref \<Longrightarrow> loadSession persist pid tls customTls m = (ref, m)"
  by (simp add: loadSession_def)

text \<open>
  C6. For every project id, \<^verbatim>\<open>loadSession\<close> called twice returns the same Session
  instance: the second call returns the reference the first one returned and leaves the
  store as it was, so no second Session is constructed and the Session's messages (and
  its tools) are what they were after the first call, whatever \<^verbatim>\<open>tools\<close> and
  \<^verbatim>\<open>customTools\<close> the second call is given.
\<close>

theorem loadSession_identity_stable:
  assumes first: "loadSession persist pid tls customTls m = (ref1, m1)"
    and second: "loadSession persist pid tls' customTls' m1 = (ref2, m2)"
  shows "ref2 = ref1 \<and> m2 = m1 \<and> length (heap m2) = length (heap m1) \<and>
         messages (deref m2 ref2) = messages (deref m1 ref1) \<and>
         tools (deref m2 ref2) = tools (deref m1 ref1) \<and>
         customTools (deref m2 ref2) = customTools (deref m1 ref1)"
proof -
  from loadSession_caches[OF first] have "sessions m1 pid = Some ref1" .
  from loadSession_cache_hit[OF this, of persist tls' customTls'] second
  have "ref2 = ref1" and "m2 = m1" by simp_all
  then show ?thesis by simp
qed

theorem loadSession_identity_stable_witness:
  "(\<exists>m1. loadSession example_persistence ''p1'' [(''build'', ())] [] example_manager = (0, m1) \<and>
      loadSession example_persistence ''p1'' [] [(''other'', ())] m1 = (0, m1) \<and>
      length (heap m1) = 1 \<and>
      messages (deref m1 0) = [user_message ''hi''] \<and>
      tools (deref m1 0) = [(''build'', ())] \<and> customTools (deref m1 0) = [])"
proof -
  let ?s = "\<lparr>projectId = ''p1'', messages = [user_message ''hi''], streamingMessage = None,
             generationState = Idle, tools = [(''build'', ())], customTools = []\<rparr>"
  let ?m1 = "example_manager\<lparr>heap := [?s], sessions := [''p1'' \<mapsto> 0]\<rparr>"
  have first: "loadSession example_persistence ''p1'' [(''build'', ())] [] example_manager = (0, ?m1)"
    by (simp add: loadSession_def example_persistence_def example_manager_def)
  obtain ref2 m2 where
    second: "loadSession example_persistence ''p1'' [] [(''other'', ())] ?m1 = (ref2, m2)"
    by (cases "loadSession example_persistence ''p1'' [] [(''other'', ())] ?m1") auto
  from loadSession_identity_stable[OF first second]
  have "ref2 = 0" and "m2 = ?m1" by simp_all
  with second
  have again: "loadSession example_persistence ''p1'' [] [(''other'', ())] ?m1 = (0, ?m1)"
    by simp
  have "length (heap ?m1) = 1" and "messages (deref ?m1 0) = [user_message ''hi'']"
    and "tools (deref ?m1 0) = [(''build'', ())]" and "customTools (deref ?m1 0) = []"
    by (simp_all add: deref_def)
  with first again show ?thesis by blast
qed

end
